theory Spec2Isabelle
  imports Complex_Main
begin

section \<open>Python errors and floating-point values\<close>

text \<open>
  Every \<^verbatim>\<open>raise\<close>, failed \<^verbatim>\<open>assert\<close> and failed lookup of the source is a value
  of \<open>error\<close>; a function that may raise returns \<open>error + 'a\<close> with \<open>Inl\<close> the error.
\<close>

datatype error = AttributeError | KeyError | AssertionError | RuntimeError

text \<open>
  A value of a float array is a finite real, an infinity or NaN. Finite arithmetic is
  exact (rounding and the sign of zero are not tracked); what is tracked is where numpy
  produces an infinity or a NaN, because \<^verbatim>\<open>fillna\<close> and the comparisons of
  \<^verbatim>\<open>_inner_split\<close> depend on it.
\<close>

datatype fl = Fin real | PInf | NInf | NaN

fun fadd :: "fl \<Rightarrow> fl \<Rightarrow> fl" where
  "fadd (Fin a) (Fin b) = Fin (a + b)"
| "fadd NaN _ = NaN"
| "fadd _ NaN = NaN"
| "fadd PInf NInf = NaN"
| "fadd NInf PInf = NaN"
| "fadd PInf _ = PInf"
| "fadd _ PInf = PInf"
| "fadd NInf _ = NInf"
| "fadd _ NInf = NInf"

fun fmul :: "fl \<Rightarrow> fl \<Rightarrow> fl" where
  "fmul (Fin a) (Fin b) = Fin (a * b)"
| "fmul NaN _ = NaN"
| "fmul _ NaN = NaN"
| "fmul PInf (Fin b) = (if b = 0 then NaN else if 0 < b then PInf else NInf)"
| "fmul NInf (Fin b) = (if b = 0 then NaN else if 0 < b then NInf else PInf)"
| "fmul (Fin a) PInf = (if a = 0 then NaN else if 0 < a then PInf else NInf)"
| "fmul (Fin a) NInf = (if a = 0 then NaN else if 0 < a then NInf else PInf)"
| "fmul PInf PInf = PInf"
| "fmul NInf NInf = PInf"
| "fmul PInf NInf = NInf"
| "fmul NInf PInf = NInf"

fun fdiv :: "fl \<Rightarrow> fl \<Rightarrow> fl" where
  "fdiv (Fin a) (Fin b) =
     (if b \<noteq> 0 then Fin (a / b) else if a = 0 then NaN else if 0 < a then PInf else NInf)"
| "fdiv NaN _ = NaN"
| "fdiv _ NaN = NaN"
| "fdiv (Fin a) PInf = Fin 0"
| "fdiv (Fin a) NInf = Fin 0"
| "fdiv PInf (Fin b) = (if 0 \<le> b then PInf else NInf)"
| "fdiv NInf (Fin b) = (if 0 \<le> b then NInf else PInf)"
| "fdiv _ _ = NaN"

text \<open>\<^verbatim>\<open>x > c\<close> and \<^verbatim>\<open>x <= c\<close> against a finite constant; both are False on NaN.\<close>

fun fgt :: "fl \<Rightarrow> real \<Rightarrow> bool" where
  "fgt (Fin a) c = (c < a)"
| "fgt PInf c = True"
| "fgt NInf c = False"
| "fgt NaN c = False"

fun fle :: "fl \<Rightarrow> real \<Rightarrow> bool" where
  "fle (Fin a) c = (a \<le> c)"
| "fle PInf c = False"
| "fle NInf c = True"
| "fle NaN c = False"

text \<open>\<^verbatim>\<open>.fillna(0)\<close>: NaN becomes 0, every other value (the infinities too) stays.\<close>

fun fillna0 :: "fl \<Rightarrow> fl" where
  "fillna0 NaN = Fin 0"
| "fillna0 x = x"

text \<open>
  xarray's \<^verbatim>\<open>.sum(dim)\<close> skips NaN on float data (\<^verbatim>\<open>skipna\<close>): NaN counts as 0.
\<close>

definition nansum :: "fl list \<Rightarrow> fl" where
  "nansum xs = foldl fadd (Fin 0) (map fillna0 xs)"

section \<open>Labelled arrays\<close>

text \<open>
  A \<^verbatim>\<open>DataArray\<close> over the non-asset dimensions (commodity, timeslice) is a function
  from cells \<open>'c\<close> to values. A \<^verbatim>\<open>DataArray\<close> with an \<^verbatim>\<open>asset\<close> dimension is the list
  of its labels along that dimension, each with its array over the cells.
\<close>

type_synonym 'c arr = "'c \<Rightarrow> fl"
type_synonym ('t, 'c) asset_arr = "('t \<times> 'c arr) list"

text \<open>
  \<^verbatim>\<open>.groupby("technology").sum("asset").rename(technology="asset")\<close>: one entry per
  distinct technology label, the NaN-skipping sum of the assets carrying that label.
\<close>

definition groupby_technology_sum :: "('t, 'c) asset_arr \<Rightarrow> ('t, 'c) asset_arr" where
  "groupby_technology_sum xs =
     map (\<lambda>t. (t, \<lambda>c. nansum (map (\<lambda>p. snd p c) (filter (\<lambda>p. fst p = t) xs))))
         (remdups (map fst xs))"

text \<open>
  \<^verbatim>\<open>a + b\<close> of two arrays labelled along \<^verbatim>\<open>asset\<close>: xarray aligns the operands on the
  labels both have (inner join) and adds cell by cell. \<^verbatim>\<open>0 + a\<close> adds the scalar to
  every value.
\<close>

definition add_aligned :: "('t, 'c) asset_arr \<Rightarrow> ('t, 'c) asset_arr \<Rightarrow> ('t, 'c) asset_arr" where
  "add_aligned xs ys =
     List.map_filter
       (\<lambda>p. case map_of ys (fst p) of
               None \<Rightarrow> None
             | Some w \<Rightarrow> Some (fst p, \<lambda>c. fadd (snd p c) (w c))) xs"

definition scalar_add :: "fl \<Rightarrow> ('t, 'c) asset_arr \<Rightarrow> ('t, 'c) asset_arr" where
  "scalar_add k xs = map (\<lambda>p. (fst p, \<lambda>c. fadd k (snd p c))) xs"

text \<open>
  Python's builtin \<^verbatim>\<open>sum(shares.values())\<close> starts from the integer 0 and adds the
  arrays from left to right. On no array at all the result is the integer 0, which has no
  \<^verbatim>\<open>.sum\<close> method and no \<^verbatim>\<open>.asset\<close> attribute.
\<close>

definition py_sum :: "('t, 'c) asset_arr list \<Rightarrow> error + ('t, 'c) asset_arr" where
  "py_sum arrs =
     (case arrs of
        [] \<Rightarrow> Inl AttributeError
      | a # rest \<Rightarrow> Inr (foldl add_aligned (scalar_add (Fin 0) a) rest))"

section \<open>The agent-level demand split\<close>

text \<open>
  \<^verbatim>\<open>_inner_split(assets, demand, method)\<close> of \<^verbatim>\<open>demand_share.py\<close>. \<open>assets\<close> is
  the dictionary from agent identifier to capacity, in insertion order; \<open>method\<close> is the
  reference quantity (decommissioning demand or maximum production), a function of the
  capacity that the source imports from \<^verbatim>\<open>muse.quantities\<close>.
\<close>

definition tolerance :: real where
  "tolerance = 1 / 10 ^ 12"

definition inner_split ::
  "('u \<times> 'cap) list \<Rightarrow> 'c arr \<Rightarrow> ('cap \<Rightarrow> ('t, 'c) asset_arr)
     \<Rightarrow> error + ('u \<times> ('t, 'c) asset_arr) list" where
  "inner_split assets demand method =
     (let shares = map (\<lambda>p. (fst p, groupby_technology_sum (method (snd p)))) assets
      in case py_sum (map snd shares) of
           Inl e \<Rightarrow> Inl e
         | Inr summed \<Rightarrow>
             (let total = (\<lambda>c. nansum (map (\<lambda>p. snd p c) summed));
                  n = length shares * length summed;
                  unassigned = (\<lambda>c. if fgt (demand c) tolerance \<and> fle (total c) tolerance
                                     then fdiv (demand c) (Fin (real n)) else Fin 0)
              in Inr (map (\<lambda>p. (fst p,
                        map (\<lambda>q. (fst q,
                              \<lambda>c. fadd (fillna0 (fmul (fillna0 (fdiv (snd q c) (total c)))
                                                       (demand c)))
                                        (unassigned c)))
                            (snd p)))
                      shares)))"

text \<open>
  The sum, at one cell, of the shares returned to all agents over all their assets: the
  quantity that the module's documentation expects to equal the demand.
\<close>

definition allocated :: "('u \<times> ('t, 'c) asset_arr) list \<Rightarrow> 'c \<Rightarrow> fl" where
  "allocated result c = nansum (concat (map (\<lambda>p. map (\<lambda>q. snd q c) (snd p)) result))"

section \<open>The sector-level split\<close>

text \<open>
  \<^verbatim>\<open>unmet_demand\<close>, \<^verbatim>\<open>new_consumption\<close> and \<^verbatim>\<open>new_and_retro_demands\<close> of
  \<^verbatim>\<open>demand_share.py\<close>. The arrays of this section are finite and share one set of
  coordinates, so an array over (region, commodity, timeslice) is a function from a region
  and a cell to a real. A market is given year by year, already interpolated
  (\<^verbatim>\<open>market.interp(year=...)\<close>), and so is the capacity, already converted to the
  market's timeslices (\<^verbatim>\<open>convert_timeslice\<close> of \<^verbatim>\<open>muse.timeslices\<close>).
  \<open>current_year\<close> is the year the caller passes, or \<^verbatim>\<open>market.year.min()\<close> when it
  passes none.
\<close>

type_synonym ('r, 'c) rarr = "'r \<Rightarrow> 'c \<Rightarrow> real"

record ('r, 'c) market =
  consumption :: "('r, 'c) rarr"

text \<open>
  A production method (\<^verbatim>\<open>muse.production\<close>) returns, for a market of one year, a
  capacity and the technologies, one row per asset: the asset's region and its production
  in every cell. \<^verbatim>\<open>.groupby("region").sum("asset")\<close> adds the rows of each region.
\<close>

type_synonym ('r, 'c, 'cap, 'tech) production_method =
  "('r, 'c) market \<Rightarrow> 'cap \<Rightarrow> 'tech \<Rightarrow> ('r \<times> ('c \<Rightarrow> real)) list"

definition groupby_region_sum :: "('r \<times> ('c \<Rightarrow> real)) list \<Rightarrow> ('r, 'c) rarr" where
  "groupby_region_sum rows r c = sum_list (map (\<lambda>p. snd p c) (filter (\<lambda>p. fst p = r) rows))"

text \<open>\<^verbatim>\<open>.clip(min=0)\<close> on one value.\<close>

definition clip_min0 :: "real \<Rightarrow> real" where
  "clip_min0 x = (if x < 0 then 0 else x)"

definition unmet_demand ::
  "('r, 'c) market \<Rightarrow> 'cap \<Rightarrow> 'tech \<Rightarrow> ('r, 'c, 'cap, 'tech) production_method
     \<Rightarrow> ('r, 'c) rarr" where
  "unmet_demand mkt capacity technologies production =
     (let prod = groupby_region_sum (production mkt capacity technologies)
      in (\<lambda>r c. clip_min0 (consumption mkt r c - prod r c)))"

text \<open>
  \<^verbatim>\<open>new_consumption\<close> receives a \<^verbatim>\<open>production\<close> argument but calls
  \<^verbatim>\<open>unmet_demand(forecasted, ts_capa, technologies)\<close> without it, so the unmet demand
  is computed with the default method, the registered \<^verbatim>\<open>maximum_production\<close>.
\<close>

definition new_consumption ::
  "(int \<Rightarrow> 'cap) \<Rightarrow> (int \<Rightarrow> ('r, 'c) market) \<Rightarrow> 'tech
     \<Rightarrow> ('r, 'c, 'cap, 'tech) production_method \<Rightarrow> ('r, 'c, 'cap, 'tech) production_method
     \<Rightarrow> int \<Rightarrow> int \<Rightarrow> ('r, 'c) rarr" where
  "new_consumption capacity mkt technologies maximum_production production current_year forecast =
     (let ts_capa = capacity current_year;
          current = mkt current_year;
          forecasted = mkt (current_year + forecast);
          delta = (\<lambda>r c. clip_min0 (consumption forecasted r c - consumption current r c));
          missing = unmet_demand forecasted ts_capa technologies maximum_production
      in (\<lambda>r c. if delta r c < missing r c then delta r c else missing r c))"

record ('r, 'c) demands =
  new :: "('r, 'c) rarr"
  retrofit :: "('r, 'c) rarr"

definition new_and_retro_demands ::
  "(int \<Rightarrow> 'cap) \<Rightarrow> (int \<Rightarrow> ('r, 'c) market) \<Rightarrow> 'tech
     \<Rightarrow> ('r, 'c, 'cap, 'tech) production_method \<Rightarrow> ('r, 'c, 'cap, 'tech) production_method
     \<Rightarrow> int \<Rightarrow> int \<Rightarrow> ('r, 'c) demands" where
  "new_and_retro_demands capacity mkt technologies maximum_production production_method
       current_year forecast =
     (let new_demand = new_consumption capacity mkt technologies maximum_production
                         production_method current_year forecast;
          service = groupby_region_sum
                      (production_method (mkt (current_year + forecast))
                         (capacity (current_year + forecast)) technologies);
          retro_demand = (\<lambda>r c. clip_min0 (consumption (mkt (current_year + forecast)) r c
                                             - new_demand r c - service r c))
      in \<lparr>new = new_demand, retrofit = retro_demand\<rparr>)"

section \<open>Agents and the sector\<close>

text \<open>
  An agent as \<^verbatim>\<open>demand_share.py\<close> and \<^verbatim>\<open>sector.py\<close> read it. The attributes that
  the source reads with \<^verbatim>\<open>getattr(agent, ..., default)\<close> or tests with \<^verbatim>\<open>hasattr\<close>
  are optional. The capacity of the agent's assets (\<^verbatim>\<open>agent.assets.capacity\<close>) has one
  row per asset: the asset's technology and its capacity in every year.
\<close>

type_synonym 't capacity = "('t \<times> (int \<Rightarrow> fl)) list"

record ('u, 'r, 't) agent =
  uuid :: 'u
  name :: string
  region :: 'r
  category :: string
  quantity :: "real option"
  forecast :: "int option"
  year :: "int option"
  capacity :: "'t capacity"

text \<open>
  \<^verbatim>\<open>Sector.forecast\<close>. Python's \<^verbatim>\<open>max\<close> of a non-empty list keeps the largest element
  seen so far.
\<close>

definition sector_forecast :: "('u, 'r, 't) agent list \<Rightarrow> int" where
  "sector_forecast agents =
     (let forecasts = List.map_filter forecast agents
      in case forecasts of
           [] \<Rightarrow> 5
         | f # fs \<Rightarrow> max 1 (fold max fs f))"

text \<open>
  Modelled from the spec: \<^verbatim>\<open>Agent.next\<close> of \<^verbatim>\<open>muse/agent.py\<close>, which
  \<^verbatim>\<open>Sector.investment\<close> calls for every agent and which is not part of the source. The
  spec (4.6, steps 3 and 4, and the data model) says that an agent builds its search
  space, computes objectives, applies the decision function and commits new capacity
  into its own assets, that no investment is made when its demand share is empty or
  below tolerance, and that its year advances every period. \<open>invest\<close> stands for the
  steps that commit new capacity. A demand share is the list of the values of its array.
\<close>

definition agent_next ::
  "(('u, 'r, 't) agent \<Rightarrow> real list \<Rightarrow> 't capacity) \<Rightarrow> ('u, 'r, 't) agent \<Rightarrow> real list \<Rightarrow> int
     \<Rightarrow> ('u, 'r, 't) agent" where
  "agent_next invest a share time_period =
     (if length share = 0 \<or> sum_list share < 1 / 10 ^ 12
      then a\<lparr>year := map_option (\<lambda>y. y + time_period) (year a)\<rparr>
      else a\<lparr>year := map_option (\<lambda>y. y + time_period) (year a), capacity := invest a share\<rparr>)"

text \<open>
  The loop of \<^verbatim>\<open>Sector.investment\<close> over the agents. \<open>shares\<close> is the dictionary that
  the demand-share function returned, \<open>year_min\<close> is \<^verbatim>\<open>market.year.min()\<close>. The state
  threaded through the loop is the log (both messages are logged at level critical) and
  the agents already stepped.
\<close>

datatype 'u log_message = DemandShareEmpty 'u | NoDemand 'u

fun investment_loop ::
  "(('u, 'r, 't) agent \<Rightarrow> real list \<Rightarrow> 't capacity) \<Rightarrow> ('u \<times> real list) list \<Rightarrow> int \<Rightarrow> int
     \<Rightarrow> ('u, 'r, 't) agent list \<Rightarrow> 'u log_message list \<times> ('u, 'r, 't) agent list
     \<Rightarrow> error + 'u log_message list \<times> ('u, 'r, 't) agent list" where
  "investment_loop invest shares year_min time_period [] st = Inr st"
| "investment_loop invest shares year_min time_period (a # rest) st =
     (if year_min \<noteq> (case year a of None \<Rightarrow> year_min | Some y \<Rightarrow> y) then Inl AssertionError
      else case map_of shares (uuid a) of
             None \<Rightarrow> Inl KeyError
           | Some share \<Rightarrow>
               investment_loop invest shares year_min time_period rest
                 (if length share = 0 then fst st @ [DemandShareEmpty (uuid a)]
                  else if sum_list share < 1 / 10 ^ 12 then fst st @ [NoDemand (uuid a)]
                  else fst st,
                  snd st @ [agent_next invest a share time_period]))"

definition investment ::
  "(('u, 'r, 't) agent \<Rightarrow> real list \<Rightarrow> 't capacity) \<Rightarrow> ('u, 'r, 't) agent list
     \<Rightarrow> ('u \<times> real list) list \<Rightarrow> int \<Rightarrow> int
     \<Rightarrow> error + 'u log_message list \<times> ('u, 'r, 't) agent list" where
  "investment invest agents shares year_min time_period =
     investment_loop invest shares year_min time_period agents ([], [])"

text \<open>A concrete agent on which the theorems about the sector are instantiated.\<close>

definition example_agent :: "nat \<Rightarrow> int option \<Rightarrow> (nat, string, string) agent" where
  "example_agent u f =
     \<lparr>uuid = u, name = ''A1'', region = ''R1'', category = ''retrofit'', quantity = None,
      forecast = f, year = Some 2020, capacity = [(''gasboiler'', \<lambda>y. Fin 1)]\<rparr>"

section \<open>Search spaces\<close>

text \<open>
  A search space is a boolean \<^verbatim>\<open>DataArray\<close> with the dimensions \<^verbatim>\<open>asset\<close> and
  \<^verbatim>\<open>replacement\<close>: the labels along each dimension and the value at each pair of
  labels. Selection and alignment in xarray go by label.
\<close>

record 't space =
  asset :: "'t list"
  replacement :: "'t list"
  val :: "'t \<Rightarrow> 't \<Rightarrow> bool"

section \<open>The registration wrapper of objectives\<close>

text \<open>
  What \<^verbatim>\<open>register_objective\<close> of \<^verbatim>\<open>objectives.py\<close> inspects of the array an
  objective returns: the dtype of its values, the names of its dimensions and of its
  coordinates, and its name, which the wrapper sets. \<open>payload\<close> is the data itself.
\<close>

datatype dtype = Float64 | Int64 | Boolean | Complex128 | ObjectType | Unicode | Datetime64

fun is_number :: "dtype \<Rightarrow> bool" where
  "is_number Float64 = True"
| "is_number Int64 = True"
| "is_number Complex128 = True"
| "is_number _ = False"

fun is_bool :: "dtype \<Rightarrow> bool" where
  "is_bool Boolean = True"
| "is_bool _ = False"

record 'v objective_result =
  dtype_of :: dtype
  dims :: "string list"
  coords :: "string list"
  array_name :: "string option"
  payload :: 'v

datatype log_record = Warning string

text \<open>
  The demand is labelled along \<^verbatim>\<open>asset\<close>. \<^verbatim>\<open>demand.sel(asset=search_space.asset)\<close>
  keeps, in the order asked for, the entries of the labels asked for, and raises
  \<^verbatim>\<open>KeyError\<close> when one of them is not a label of the demand.
\<close>

definition sel_asset :: "('t \<times> 'd) list \<Rightarrow> 't list \<Rightarrow> error + ('t \<times> 'd) list" where
  "sel_asset demand labels =
     (if list_all (\<lambda>l. map_of demand l \<noteq> None) labels
      then Inr (map (\<lambda>l. (l, the (map_of demand l))) labels)
      else Inl KeyError)"

text \<open>
  \<^verbatim>\<open>decorated\<close>, the function that \<^verbatim>\<open>register_objective\<close> puts in the registry in
  place of \<open>function\<close>, whose \<^verbatim>\<open>__name__\<close> is \<open>fname\<close>. The positional and keyword
  arguments after the search space (technologies, market) are passed through unchanged
  and are part of \<open>function\<close> here. The result is the log written and what is returned
  or raised.
\<close>

definition decorated ::
  "string \<Rightarrow> ('a \<Rightarrow> ('t \<times> 'd) list \<Rightarrow> 't space \<Rightarrow> 'v objective_result)
     \<Rightarrow> 'a \<Rightarrow> ('t \<times> 'd) list \<Rightarrow> 't space
     \<Rightarrow> log_record list \<times> (error + 'v objective_result)" where
  "decorated fname function agt demand search_space =
     (case sel_asset demand (asset search_space) of
        Inl e \<Rightarrow> ([], Inl e)
      | Inr reduced_demand \<Rightarrow>
          (let result = function agt reduced_demand search_space;
               logged = (if \<not> (is_number (dtype_of result) \<or> is_bool (dtype_of result))
                         then [Warning fname] else [])
           in if \<not> set (dims result) \<subseteq> {''replacement'', ''asset''}
              then (logged, Inl RuntimeError)
              else if ''technology'' \<in> set (dims result) then (logged, Inl RuntimeError)
              else if ''technology'' \<in> set (coords result) then (logged, Inl RuntimeError)
              else (logged, Inr (result\<lparr>array_name := Some fname\<rparr>))))"

text \<open>Concrete objectives and a concrete search space to instantiate the theorems on.\<close>

definition example_space :: "string space" where
  "example_space = \<lparr>asset = [''gasboiler''], replacement = [''gasboiler'', ''heatpump''],
                    val = (\<lambda>a r. True)\<rparr>"

definition example_objective ::
  "dtype \<Rightarrow> string list \<Rightarrow> string list \<Rightarrow> unit \<Rightarrow> (string \<times> real) list \<Rightarrow> string space
     \<Rightarrow> real list objective_result" where
  "example_objective dt ds cs agt demand search_space =
     \<lparr>dtype_of = dt, dims = ds, coords = cs, array_name = None, payload = map snd demand\<rparr>"

section \<open>Search-space filters\<close>

text \<open>
  The filters of \<^verbatim>\<open>filters.py\<close>. The data they read is what
  \<^verbatim>\<open>agent.filter_input\<close> (of \<^verbatim>\<open>muse/agent.py\<close>) hands them: the technology data of
  the agent's region and year, labelled along \<^verbatim>\<open>technology\<close> and \<^verbatim>\<open>commodity\<close>, and
  the capacity of the market in the agent's year, labelled along \<^verbatim>\<open>technology\<close>.
  \<open>is_enduse\<close> is \<^verbatim>\<open>is_enduse(technologies.comm_usage)\<close>.
\<close>

record ('t, 'k) technologies =
  technology :: "'t list"
  commodity :: "'k list"
  fixed_outputs :: "'t \<Rightarrow> 'k \<Rightarrow> real"
  is_enduse :: "'k \<Rightarrow> bool"
  tech_type :: "'t \<Rightarrow> string"
  fuel :: "'t \<Rightarrow> string"

record 't market_capacity =
  cap_technology :: "'t list"
  cap_value :: "'t \<Rightarrow> real"

text \<open>
  \<^verbatim>\<open>array.sel(technology=labels)\<close> raises \<^verbatim>\<open>KeyError\<close> unless every label asked for
  is a label of the array.
\<close>

definition all_in :: "'t list \<Rightarrow> 't list \<Rightarrow> bool" where
  "all_in labels index = list_all (\<lambda>l. l \<in> set index) labels"

definition enduse01 :: "('t, 'k) technologies \<Rightarrow> 't \<Rightarrow> 'k \<Rightarrow> int" where
  "enduse01 techs t k = (if 0 < fixed_outputs techs t k then 1 else 0)"

definition enduses :: "('t, 'k) technologies \<Rightarrow> 'k list" where
  "enduses techs = filter (is_enduse techs) (commodity techs)"

text \<open>
  \<^verbatim>\<open>same_enduse\<close>. \<^verbatim>\<open>tech_enduses\<close> is labelled by every technology (renamed to
  \<^verbatim>\<open>replacement\<close>), so the final \<^verbatim>\<open>&\<close> keeps the replacements that are technologies
  (alignment on common labels).
\<close>

definition same_enduse :: "('t, 'k) technologies \<Rightarrow> 't space \<Rightarrow> error + 't space" where
  "same_enduse techs search_space =
     (if \<not> all_in (asset search_space) (technology techs) then Inl KeyError
      else Inr \<lparr>asset = asset search_space,
                replacement = filter (\<lambda>r. r \<in> set (technology techs)) (replacement search_space),
                val = (\<lambda>a r. val search_space a r \<and>
                        list_all (\<lambda>k. 0 \<le> enduse01 techs r k - enduse01 techs a k)
                                 (enduses techs))\<rparr>)"

definition identity :: "'t space \<Rightarrow> 't space" where
  "identity search_space = search_space"

definition similar_technology :: "('t, 'k) technologies \<Rightarrow> 't space \<Rightarrow> error + 't space" where
  "similar_technology techs search_space =
     (if \<not> all_in (asset search_space) (technology techs) then Inl KeyError
      else if \<not> all_in (replacement search_space) (technology techs) then Inl KeyError
      else Inr (search_space\<lparr>val := (\<lambda>a r. val search_space a r \<and>
                                          tech_type techs a = tech_type techs r)\<rparr>))"

definition same_fuels :: "('t, 'k) technologies \<Rightarrow> 't space \<Rightarrow> error + 't space" where
  "same_fuels techs search_space =
     (if \<not> all_in (asset search_space) (technology techs) then Inl KeyError
      else if \<not> all_in (replacement search_space) (technology techs) then Inl KeyError
      else Inr (search_space\<lparr>val := (\<lambda>a r. val search_space a r \<and>
                                          fuel techs a = fuel techs r)\<rparr>))"

text \<open>
  \<^verbatim>\<open>currently_existing_tech\<close>. \<open>tol\<close> is the agent's \<^verbatim>\<open>tolerance\<close> attribute, if it
  has one. \<^verbatim>\<open>both\<close> is the \<^verbatim>\<open>replacement\<close> coordinate of a boolean array labelled by
  the technologies of the market capacity, that is all of these labels, and
  \<^verbatim>\<open>result.loc[{"replacement": both.values}]\<close> raises \<^verbatim>\<open>KeyError\<close> unless each of them is
  a replacement of the search space.
\<close>

definition currently_existing_tech ::
  "real option \<Rightarrow> 't market_capacity \<Rightarrow> 't space \<Rightarrow> error + 't space" where
  "currently_existing_tech tol cap search_space =
     (if \<not> all_in (cap_technology cap) (replacement search_space) then Inl KeyError
      else Inr (search_space\<lparr>val := (\<lambda>a r. val search_space a r \<and>
                  r \<in> set (cap_technology cap) \<and>
                  (case tol of None \<Rightarrow> 1 / 10 ^ 8 | Some t \<Rightarrow> t) < cap_value cap r)\<rparr>))"

definition currently_referenced_tech :: "'t market_capacity \<Rightarrow> 't space \<Rightarrow> 't space" where
  "currently_referenced_tech cap search_space =
     search_space\<lparr>val := (\<lambda>a r. val search_space a r \<and> r \<in> set (cap_technology cap))\<rparr>"

text \<open>
  \<^verbatim>\<open>maturity\<close>. The product \<^verbatim>\<open>capacity * outputs\<close> is taken over the technologies that
  both arrays have and summed over them. The comparison
  \<^verbatim>\<open>enduse_market_share <= capacity\<close> is labelled by the \<^verbatim>\<open>technology\<close> dimension of the
  capacity, which this filter does not rename to \<^verbatim>\<open>replacement\<close> (the other filters that
  read the capacity do), so \<^verbatim>\<open>search_space & ...\<close> broadcasts: the result has the three
  dimensions \<^verbatim>\<open>asset\<close>, \<^verbatim>\<open>replacement\<close> and \<^verbatim>\<open>technology\<close>.
\<close>

record 't space3 =
  asset3 :: "'t list"
  replacement3 :: "'t list"
  technology3 :: "'t list"
  val3 :: "'t \<Rightarrow> 't \<Rightarrow> 't \<Rightarrow> bool"

definition enduse_production :: "('t, 'k) technologies \<Rightarrow> 't market_capacity \<Rightarrow> 'k \<Rightarrow> real" where
  "enduse_production techs cap k =
     sum_list (map (\<lambda>t. cap_value cap t * fixed_outputs techs t k)
                   (filter (\<lambda>t. t \<in> set (technology techs)) (cap_technology cap)))"

definition maturity ::
  "real \<Rightarrow> ('t, 'k) technologies \<Rightarrow> 't market_capacity \<Rightarrow> 't space \<Rightarrow> 't space3" where
  "maturity maturity_threshhold techs cap search_space =
     (let enduse_market_share = (\<lambda>k. maturity_threshhold * enduse_production techs cap k)
      in \<lparr>asset3 = asset search_space,
          replacement3 = replacement search_space,
          technology3 = cap_technology cap,
          val3 = (\<lambda>a r t. val search_space a r \<and>
                    list_all (\<lambda>k. enduse_market_share k \<le> cap_value cap t) (enduses techs))\<rparr>)"

definition compress :: "'t space \<Rightarrow> 't space" where
  "compress search_space =
     search_space\<lparr>replacement :=
        filter (\<lambda>r. list_ex (\<lambda>a. val search_space a r) (asset search_space))
               (replacement search_space)\<rparr>"

definition with_asset_technology :: "'t space \<Rightarrow> 't space" where
  "with_asset_technology search_space =
     search_space\<lparr>val := (\<lambda>a r. val search_space a r \<or> a = r)\<rparr>"

text \<open>The number of True entries of a search space, and of a three-dimensional result.\<close>

definition count_true :: "'t space \<Rightarrow> nat" where
  "count_true s =
     length (filter (\<lambda>p. val s (fst p) (snd p)) (List.product (asset s) (replacement s)))"

definition count_true3 :: "'t space3 \<Rightarrow> nat" where
  "count_true3 s =
     length (filter (\<lambda>p. val3 s (fst p) (fst (snd p)) (snd (snd p)))
               (List.product (asset3 s) (List.product (replacement3 s) (technology3 s))))"

text \<open>Concrete technologies and market capacities to instantiate the theorems on.\<close>

definition example_technologies :: "(string, string) technologies" where
  "example_technologies =
     \<lparr>technology = [''gasboiler'', ''heatpump''], commodity = [''heat'', ''gas''],
      fixed_outputs = (\<lambda>t k. if k = ''heat'' then 1 else 0),
      is_enduse = (\<lambda>k. k = ''heat''),
      tech_type = (\<lambda>t. ''boiler''), fuel = (\<lambda>t. if t = ''gasboiler'' then ''gas'' else ''power'')\<rparr>"

definition example_capacity :: "real \<Rightarrow> real \<Rightarrow> string market_capacity" where
  "example_capacity g h =
     \<lparr>cap_technology = [''gasboiler'', ''heatpump''],
      cap_value = (\<lambda>t. if t = ''gasboiler'' then g else h)\<rparr>"

definition single_space :: "string space" where
  "single_space = \<lparr>asset = [''gasboiler''], replacement = [''gasboiler''], val = (\<lambda>a r. True)\<rparr>"

section \<open>Splitting the demand across new and retrofit agents\<close>















section \<open>Properties of the demand split\<close>














text \<open>
  Claim C1 (demand-share completeness). The claim says that at every cell the shares
  returned to all agents sum to the demand of that cell. With one agent owning one
  technology whose reference quantity is \<open>5e-13\<close> and a demand of \<open>1\<close>, the total
  \<open>5e-13\<close> is at most \<open>1e-12\<close>, so the equal-split term \<open>1 / (1 * 1)\<close> is added, while the
  proportional term \<open>(5e-13 / 5e-13) * 1\<close> is not zero: the agent is handed \<open>2\<close>, twice
  the demand.
\<close>

theorem inner_split_double_allocation:
  "map_sum id (\<lambda>r. allocated r (''heat'', 0::nat))
     (inner_split [(1::nat, ())] (\<lambda>c. Fin 1) (\<lambda>cap. [(''gasboiler'', \<lambda>c. Fin (5 / 10 ^ 13))]))
   = Inr (Fin 2)"
  by (simp add: inner_split_def py_sum_def groupby_technology_sum_def scalar_add_def
      nansum_def tolerance_def allocated_def)




section \<open>Properties of the sector-level split\<close>

text \<open>
  What the three functions compute, cell by cell. Unmet demand is
  \<open>max (consumption - production, 0)\<close>. The new demand is the smaller of the growth in
  consumption between the current and the forecast year, clipped at zero, and the unmet
  demand of the forecast-year market served by the current-year capacity under the
  default production method \<open>maxprod\<close>, whatever the method \<open>P\<close> of the call. The retrofit
  demand is the forecast-year consumption minus the new demand minus the production,
  under \<open>P\<close>, of the forecast-year capacity of the current assets, clipped at zero.
\<close>

lemma new_and_retro_demands_formulas:
  "unmet_demand m cap tech P r c =
      max (consumption m r c - groupby_region_sum (P m cap tech) r c) 0 \<and>
   new (new_and_retro_demands capa mkt tech maxprod P y f) r c =
      min (max (consumption (mkt (y + f)) r c - consumption (mkt y) r c) 0)
          (unmet_demand (mkt (y + f)) (capa y) tech maxprod r c) \<and>
   retrofit (new_and_retro_demands capa mkt tech maxprod P y f) r c =
      max (consumption (mkt (y + f)) r c
           - new (new_and_retro_demands capa mkt tech maxprod P y f) r c
           - groupby_region_sum (P (mkt (y + f)) (capa (y + f)) tech) r c) 0"
  by (simp add: unmet_demand_def new_and_retro_demands_def new_consumption_def clip_min0_def
      Let_def max_def min_def)

text \<open>
  Claim C4 (the sector-level split). The claim, like the documentation of
  \<^verbatim>\<open>new_and_retro\<close>, takes the new demand to be the smaller of the growth in
  consumption and the unmet demand under the production method of the call. Take a
  consumption of 10 in the current year and 14 in the forecast year, a selected
  production method under which the assets produce nothing, and a default method
  (\<^verbatim>\<open>maximum_production\<close>) under which they produce 100. The unmet demand under the
  selected method is 14 and the growth is 4, so the new demand of the claim is 4;
  \<^verbatim>\<open>new_consumption\<close> drops the \<^verbatim>\<open>production\<close> argument it is given, computes the
  unmet demand with the default method, 0, and returns 0.
\<close>

theorem new_demand_ignores_production:
  "new (new_and_retro_demands (\<lambda>y. ())
          (\<lambda>y. \<lparr>consumption = (\<lambda>r c. if y = 2020 then 10 else 14)\<rparr>) ()
          (\<lambda>m cap tech. [(''R1'', \<lambda>c. 100)])
          (\<lambda>m cap tech. []) 2020 5) ''R1'' (''heat'', 0::nat) = 0 \<and>
   min (max (consumption \<lparr>consumption = (\<lambda>r c. 14)\<rparr> ''R1'' (''heat'', 0::nat)
             - consumption \<lparr>consumption = (\<lambda>r c. 10)\<rparr> ''R1'' (''heat'', 0::nat)) 0)
       (unmet_demand \<lparr>consumption = (\<lambda>r c. 14)\<rparr> () ()
          (\<lambda>m cap tech. []) ''R1'' (''heat'', 0::nat)) = 4"
  by (simp add: new_and_retro_demands_def new_consumption_def unmet_demand_def
      groupby_region_sum_def clip_min0_def Let_def)

section \<open>Properties of the sector\<close>

lemma fold_max_Max: "fold max fs (f::int) = Max (insert f (set fs))"
  using Max.set_eq_fold [of f fs] by simp

text \<open>
  Claim C10. \<^verbatim>\<open>Sector.forecast\<close> is 5 when no agent has a \<^verbatim>\<open>forecast\<close> attribute;
  otherwise it is the largest of the agents' forecast values, raised to 1 when that is
  smaller. It is at least 1 in every case.
\<close>

theorem sector_forecast_value:
  "sector_forecast agents =
     (if List.map_filter forecast agents = [] then 5
      else max 1 (Max (set (List.map_filter forecast agents)))) \<and>
   1 \<le> sector_forecast agents"
  by (simp add: sector_forecast_def fold_max_Max split: list.splits)

theorem sector_forecast_value_witness:
  "sector_forecast [example_agent 1 None, example_agent 2 (Some 0), example_agent 3 (Some 7)] = 7 \<and>
   sector_forecast [example_agent 1 None] = 5 \<and>
   sector_forecast [example_agent 2 (Some 0)] = 1"
  using sector_forecast_value [of "[example_agent 1 None, example_agent 2 (Some 0), example_agent 3 (Some 7)]"]
    sector_forecast_value [of "[example_agent 1 None]"]
    sector_forecast_value [of "[example_agent 2 (Some 0)]"]
  by (simp add: example_agent_def List.map_filter_simps)

lemma investment_loop_steps:
  assumes "\<forall>a\<in>set agents. map_of shares (uuid a) \<noteq> None"
    and "\<forall>a\<in>set agents. year a = None \<or> year a = Some year_min"
  shows "\<exists>log. investment_loop invest shares year_min time_period agents st =
           Inr (log, snd st @ map (\<lambda>a. agent_next invest a (the (map_of shares (uuid a))) time_period) agents) \<and>
         set (fst st) \<subseteq> set log \<and>
         (\<forall>a\<in>set agents. (length (the (map_of shares (uuid a))) = 0 \<longrightarrow> DemandShareEmpty (uuid a) \<in> set log) \<and>
            (length (the (map_of shares (uuid a))) \<noteq> 0 \<and> sum_list (the (map_of shares (uuid a))) < 1 / 10 ^ 12
               \<longrightarrow> NoDemand (uuid a) \<in> set log))"
  using assms
proof (induction agents arbitrary: st)
  case Nil
  show ?case by (rule exI [of _ "fst st"]) simp
next
  case (Cons a rest)
  from Cons.prems obtain share where sh: "map_of shares (uuid a) = Some share" by auto
  from Cons.prems have yr: "(case year a of None \<Rightarrow> year_min | Some y \<Rightarrow> y) = year_min"
    by (auto split: option.splits)
  let ?st = "(if length share = 0 then fst st @ [DemandShareEmpty (uuid a)]
                  else if sum_list share < 1 / 10 ^ 12 then fst st @ [NoDemand (uuid a)]
                  else fst st,
                  snd st @ [agent_next invest a share time_period])"
  from Cons.prems have p1: "\<forall>a\<in>set rest. map_of shares (uuid a) \<noteq> None"
    and p2: "\<forall>a\<in>set rest. year a = None \<or> year a = Some year_min" by auto
  from Cons.IH [OF p1 p2, of ?st] obtain log where
    l: "investment_loop invest shares year_min time_period rest ?st =
           Inr (log, snd ?st @ map (\<lambda>a. agent_next invest a (the (map_of shares (uuid a))) time_period) rest)"
    and s: "set (fst ?st) \<subseteq> set log"
    and r: "\<forall>a\<in>set rest. (length (the (map_of shares (uuid a))) = 0 \<longrightarrow> DemandShareEmpty (uuid a) \<in> set log) \<and>
            (length (the (map_of shares (uuid a))) \<noteq> 0 \<and> sum_list (the (map_of shares (uuid a))) < 1 / 10 ^ 12
               \<longrightarrow> NoDemand (uuid a) \<in> set log)"
    by blast
  have "investment_loop invest shares year_min time_period (a # rest) st =
      Inr (log, snd st @ map (\<lambda>a. agent_next invest a (the (map_of shares (uuid a))) time_period) (a # rest))"
    using l sh yr by simp
  moreover have "set (fst st) \<subseteq> set log" using s by (auto split: if_splits)
  moreover have "(length (the (map_of shares (uuid a))) = 0 \<longrightarrow> DemandShareEmpty (uuid a) \<in> set log) \<and>
            (length (the (map_of shares (uuid a))) \<noteq> 0 \<and> sum_list (the (map_of shares (uuid a))) < 1 / 10 ^ 12
               \<longrightarrow> NoDemand (uuid a) \<in> set log)"
    using s sh by (auto split: if_splits)
  ultimately show ?case using r by auto
qed

text \<open>
  Claim C7. When every agent has an entry in the demand shares and no agent's year
  differs from the first year of the market, \<^verbatim>\<open>Sector.investment\<close> raises nothing and
  steps every agent, in order. For an agent whose share is empty the message "Demand
  share is empty" is logged, for one whose share is not empty and sums to less than
  \<open>1e-12\<close> the message "No demand" is logged; in both cases the loop goes on to the
  remaining agents and the capacity of the agent's assets is unchanged (no investment).
\<close>

theorem investment_degenerate_share:
  assumes "\<forall>a\<in>set agents. map_of shares (uuid a) \<noteq> None"
    and "\<forall>a\<in>set agents. year a = None \<or> year a = Some year_min"
  shows "\<exists>log agents'. investment invest agents shares year_min time_period = Inr (log, agents') \<and>
           length agents' = length agents \<and>
           (\<forall>i<length agents.
              agents' ! i = agent_next invest (agents ! i) (the (map_of shares (uuid (agents ! i)))) time_period \<and>
              (length (the (map_of shares (uuid (agents ! i)))) = 0 \<longrightarrow>
                 DemandShareEmpty (uuid (agents ! i)) \<in> set log \<and>
                 capacity (agents' ! i) = capacity (agents ! i)) \<and>
              (length (the (map_of shares (uuid (agents ! i)))) \<noteq> 0 \<and>
               sum_list (the (map_of shares (uuid (agents ! i)))) < 1 / 10 ^ 12 \<longrightarrow>
                 NoDemand (uuid (agents ! i)) \<in> set log \<and>
                 capacity (agents' ! i) = capacity (agents ! i)))"
proof -
  from investment_loop_steps [OF assms, of invest time_period "([], [])"] obtain log where
    l: "investment invest agents shares year_min time_period =
          Inr (log, map (\<lambda>a. agent_next invest a (the (map_of shares (uuid a))) time_period) agents)"
    and r: "\<forall>a\<in>set agents. (length (the (map_of shares (uuid a))) = 0 \<longrightarrow> DemandShareEmpty (uuid a) \<in> set log) \<and>
            (length (the (map_of shares (uuid a))) \<noteq> 0 \<and> sum_list (the (map_of shares (uuid a))) < 1 / 10 ^ 12
               \<longrightarrow> NoDemand (uuid a) \<in> set log)"
    by (auto simp add: investment_def)
  show ?thesis
    using l r by (auto simp add: agent_next_def)
qed

theorem investment_degenerate_share_witness:
  "\<exists>agents'. investment (\<lambda>a share. (''heatpump'', \<lambda>y. Fin 1) # capacity a)
      [example_agent 1 None, example_agent 2 None, example_agent 3 None]
      [(1, []), (2, [0, 0]), (3, [5, 2])] 2020 5
    = Inr ([DemandShareEmpty 1, NoDemand 2], agents') \<and>
    map (\<lambda>a. length (capacity a)) agents' = [1, 1, 2] \<and>
    map year agents' = [Some 2025, Some 2025, Some 2025]"
proof -
  let ?ags = "[example_agent 1 None, example_agent 2 None, example_agent 3 None]"
  let ?sh = "[(1::nat, []), (2, [0, 0]), (3, [5, 2::real])]"
  have a: "\<forall>a\<in>set ?ags. map_of ?sh (uuid a) \<noteq> None" by (simp add: example_agent_def)
  have b: "\<forall>a\<in>set ?ags. year a = None \<or> year a = Some 2020" by (simp add: example_agent_def)
  from investment_degenerate_share [OF a b, of "\<lambda>a share. (''heatpump'', \<lambda>y. Fin 1) # capacity a" 5]
  show ?thesis
    by (simp add: investment_def agent_next_def example_agent_def)
qed

section \<open>Properties of the registration wrapper\<close>

text \<open>
  Claim C5. Once the demand has been restricted to the assets of the search space, the
  outcome of the wrapper is decided by the dimensions and coordinates of the result
  alone: it raises \<^verbatim>\<open>RuntimeError\<close> when the dimensions are not a subset of
  \<open>{replacement, asset}\<close> or \<open>technology\<close> is a dimension or a coordinate, and returns
  the result (named after the objective) otherwise, whatever the dtype. The dtype decides
  the log alone: a warning is logged exactly when it is neither a number nor a boolean.
\<close>

theorem decorated_contract:
  assumes "sel_asset demand (asset ss) = Inr reduced"
  shows "snd (decorated fname f agt demand ss) =
           (if \<not> set (dims (f agt reduced ss)) \<subseteq> {''replacement'', ''asset''}
               \<or> ''technology'' \<in> set (dims (f agt reduced ss))
               \<or> ''technology'' \<in> set (coords (f agt reduced ss))
            then Inl RuntimeError
            else Inr ((f agt reduced ss)\<lparr>array_name := Some fname\<rparr>)) \<and>
         fst (decorated fname f agt demand ss) =
           (if is_number (dtype_of (f agt reduced ss)) \<or> is_bool (dtype_of (f agt reduced ss))
            then [] else [Warning fname])"
  using assms by (simp add: decorated_def Let_def)

theorem decorated_contract_witness:
  "decorated ''comfort'' (example_objective Unicode [''replacement''] [''replacement'']) ()
       [(''gasboiler'', 2), (''oilboiler'', 3)] example_space =
     ([Warning ''comfort''],
      Inr \<lparr>dtype_of = Unicode, dims = [''replacement''], coords = [''replacement''],
           array_name = Some ''comfort'', payload = [2]\<rparr>) \<and>
   decorated ''comfort'' (example_objective Float64 [''replacement'', ''technology''] []) ()
       [(''gasboiler'', 2), (''oilboiler'', 3)] example_space = ([], Inl RuntimeError) \<and>
   decorated ''comfort'' (example_objective Float64 [''replacement''] [''technology'']) ()
       [(''gasboiler'', 2), (''oilboiler'', 3)] example_space = ([], Inl RuntimeError)"
proof -
  have s: "sel_asset [(''gasboiler'', 2::real), (''oilboiler'', 3)] (asset example_space)
             = Inr [(''gasboiler'', 2)]"
    by (simp add: sel_asset_def example_space_def)
  show ?thesis
    using decorated_contract [OF s, of "''comfort''" "example_objective Unicode [''replacement''] [''replacement'']" "()"]
      decorated_contract [OF s, of "''comfort''" "example_objective Float64 [''replacement'', ''technology''] []" "()"]
      decorated_contract [OF s, of "''comfort''" "example_objective Float64 [''replacement''] [''technology'']" "()"]
    by (simp add: example_objective_def prod_eq_iff)
qed

text \<open>
  Claim C9. When every asset of the search space is a label of the demand, the objective
  is called on the demand restricted to these assets, in the order of the search space:
  the log and the outcome of the wrapper are those of the objective's result on that
  restricted demand. When some asset of the search space is missing from the demand, the
  restriction raises \<^verbatim>\<open>KeyError\<close> and the objective is not called. Therefore two demands
  that agree on the assets of the search space give the same log and the same result or
  error, whatever they hold for other assets.
\<close>

theorem decorated_restricts_demand:
  "((\<forall>a\<in>set (asset ss). map_of demand a \<noteq> None) \<longrightarrow>
      decorated fname f agt demand ss =
        (let reduced = map (\<lambda>a. (a, the (map_of demand a))) (asset ss);
             result = f agt reduced ss
         in (if is_number (dtype_of result) \<or> is_bool (dtype_of result) then []
             else [Warning fname],
             if \<not> set (dims result) \<subseteq> {''replacement'', ''asset''}
                \<or> ''technology'' \<in> set (dims result)
                \<or> ''technology'' \<in> set (coords result)
             then Inl RuntimeError
             else Inr (result\<lparr>array_name := Some fname\<rparr>)))) \<and>
   ((\<exists>a\<in>set (asset ss). map_of demand a = None) \<longrightarrow>
      decorated fname f agt demand ss = ([], Inl KeyError)) \<and>
   ((\<forall>a\<in>set (asset ss). map_of demand a = map_of demand' a) \<longrightarrow>
      decorated fname f agt demand ss = decorated fname f agt demand' ss)"
proof (intro conjI impI)
  assume "\<forall>a\<in>set (asset ss). map_of demand a \<noteq> None"
  then have "sel_asset demand (asset ss) = Inr (map (\<lambda>a. (a, the (map_of demand a))) (asset ss))"
    by (simp add: sel_asset_def list_all_iff)
  then show "decorated fname f agt demand ss =
        (let reduced = map (\<lambda>a. (a, the (map_of demand a))) (asset ss);
             result = f agt reduced ss
         in (if is_number (dtype_of result) \<or> is_bool (dtype_of result) then []
             else [Warning fname],
             if \<not> set (dims result) \<subseteq> {''replacement'', ''asset''}
                \<or> ''technology'' \<in> set (dims result)
                \<or> ''technology'' \<in> set (coords result)
             then Inl RuntimeError
             else Inr (result\<lparr>array_name := Some fname\<rparr>)))"
    by (simp add: decorated_def Let_def)
next
  assume "\<exists>a\<in>set (asset ss). map_of demand a = None"
  then have "sel_asset demand (asset ss) = Inl KeyError"
    by (auto simp add: sel_asset_def list_all_iff)
  then show "decorated fname f agt demand ss = ([], Inl KeyError)"
    by (simp add: decorated_def)
next
  assume "\<forall>a\<in>set (asset ss). map_of demand a = map_of demand' a"
  then have "sel_asset demand (asset ss) = sel_asset demand' (asset ss)"
    by (auto simp add: sel_asset_def list_all_iff)
  then show "decorated fname f agt demand ss = decorated fname f agt demand' ss"
    by (simp add: decorated_def)
qed

theorem decorated_restricts_demand_witness:
  "decorated ''comfort'' (example_objective Float64 [''asset''] [''asset'']) ()
       [(''oilboiler'', 50), (''gasboiler'', 2), (''stove'', 7)] example_space =
     ([], Inr \<lparr>dtype_of = Float64, dims = [''asset''], coords = [''asset''],
               array_name = Some ''comfort'', payload = [2]\<rparr>) \<and>
   decorated ''comfort'' (example_objective Float64 [''asset''] [''asset'']) ()
       [(''oilboiler'', 50), (''stove'', 7)] example_space = ([], Inl KeyError) \<and>
   decorated ''comfort'' (example_objective Float64 [''asset''] [''asset'']) ()
       [(''gasboiler'', 2), (''oilboiler'', 3)] example_space =
   decorated ''comfort'' (example_objective Float64 [''asset''] [''asset'']) ()
       [(''oilboiler'', 50), (''gasboiler'', 2), (''stove'', 7)] example_space"
proof -
  let ?f = "example_objective Float64 [''asset''] [''asset'']"
  let ?big = "[(''oilboiler'', 50::real), (''gasboiler'', 2), (''stove'', 7)]"
  let ?none = "[(''oilboiler'', 50::real), (''stove'', 7)]"
  let ?small = "[(''gasboiler'', 2::real), (''oilboiler'', 3)]"
  have a: "\<forall>a\<in>set (asset example_space). map_of ?big a \<noteq> None"
    by (simp add: example_space_def)
  have b: "\<exists>a\<in>set (asset example_space). map_of ?none a = None"
    by (simp add: example_space_def)
  have c: "\<forall>a\<in>set (asset example_space). map_of ?small a = map_of ?big a"
    by (simp add: example_space_def)
  have "decorated ''comfort'' ?f () ?big example_space =
     ([], Inr \<lparr>dtype_of = Float64, dims = [''asset''], coords = [''asset''],
               array_name = Some ''comfort'', payload = [2]\<rparr>)"
    using decorated_restricts_demand [where demand = ?big and ss = example_space
        and fname = "''comfort''" and f = ?f and agt = "()", THEN conjunct1, THEN mp, OF a]
    by (simp add: example_objective_def example_space_def)
  moreover have "decorated ''comfort'' ?f () ?none example_space = ([], Inl KeyError)"
    using decorated_restricts_demand [where demand = ?none and ss = example_space
        and fname = "''comfort''" and f = ?f and agt = "()", THEN conjunct2, THEN conjunct1,
        THEN mp, OF b] .
  moreover have "decorated ''comfort'' ?f () ?small example_space =
      decorated ''comfort'' ?f () ?big example_space"
    using decorated_restricts_demand [where demand = ?small and demand' = ?big
        and ss = example_space and fname = "''comfort''" and f = ?f and agt = "()",
        THEN conjunct2, THEN conjunct2, THEN mp, OF c] .
  ultimately show ?thesis by blast
qed

section \<open>Properties of the filters\<close>

lemma filter_length_mono:
  "(\<And>x. x \<in> set xs \<Longrightarrow> P x \<Longrightarrow> Q x) \<Longrightarrow> length (filter P xs) \<le> length (filter Q xs)"
  by (induction xs) auto

lemma product_filter_right:
  "List.product xs (filter P ys) = filter (\<lambda>p. P (snd p)) (List.product xs ys)"
  by (induction xs) (simp_all add: filter_map o_def)

lemma count_true_mono:
  assumes "asset s' = asset s"
    and "replacement s' = filter P (replacement s)"
    and "\<And>a r. val s' a r \<Longrightarrow> val s a r"
  shows "count_true s' \<le> count_true s"
  using assms
  by (auto simp add: count_true_def product_filter_right intro!: filter_length_mono)

lemma filter_True_id: "filter (\<lambda>r. True) xs = xs"
  by simp

text \<open>
  The filters that return a search space over the same two dimensions: no entry that
  was False is True afterwards, the axes do not grow, and the number of True entries
  does not increase. \<^verbatim>\<open>with_asset_technology\<close> only adds True entries, and
  \<^verbatim>\<open>compress\<close> changes no value: it drops the replacements that are True for no asset.
\<close>

lemma filters_pointwise:
  "same_enduse techs s = Inr s' \<Longrightarrow>
     asset s' = asset s \<and> set (replacement s') \<subseteq> set (replacement s) \<and>
     (\<forall>a r. val s' a r \<longrightarrow> val s a r) \<and> count_true s' \<le> count_true s"
  "similar_technology techs s = Inr s' \<Longrightarrow>
     asset s' = asset s \<and> replacement s' = replacement s \<and>
     (\<forall>a r. val s' a r \<longrightarrow> val s a r) \<and> count_true s' \<le> count_true s"
  "same_fuels techs s = Inr s' \<Longrightarrow>
     asset s' = asset s \<and> replacement s' = replacement s \<and>
     (\<forall>a r. val s' a r \<longrightarrow> val s a r) \<and> count_true s' \<le> count_true s"
  "currently_existing_tech tol cap s = Inr s' \<Longrightarrow>
     asset s' = asset s \<and> replacement s' = replacement s \<and>
     (\<forall>a r. val s' a r \<longrightarrow> val s a r) \<and> count_true s' \<le> count_true s"
  "currently_referenced_tech cap s = s' \<Longrightarrow>
     asset s' = asset s \<and> replacement s' = replacement s \<and>
     (\<forall>a r. val s' a r \<longrightarrow> val s a r) \<and> count_true s' \<le> count_true s"
proof -
  show "same_enduse techs s = Inr s' \<Longrightarrow>
     asset s' = asset s \<and> set (replacement s') \<subseteq> set (replacement s) \<and>
     (\<forall>a r. val s' a r \<longrightarrow> val s a r) \<and> count_true s' \<le> count_true s"
    by (auto simp add: same_enduse_def split: if_splits intro!: count_true_mono)
  show "similar_technology techs s = Inr s' \<Longrightarrow>
     asset s' = asset s \<and> replacement s' = replacement s \<and>
     (\<forall>a r. val s' a r \<longrightarrow> val s a r) \<and> count_true s' \<le> count_true s"
    by (auto simp add: similar_technology_def split: if_splits
        intro!: count_true_mono [where P = "\<lambda>r. True"])
  show "same_fuels techs s = Inr s' \<Longrightarrow>
     asset s' = asset s \<and> replacement s' = replacement s \<and>
     (\<forall>a r. val s' a r \<longrightarrow> val s a r) \<and> count_true s' \<le> count_true s"
    by (auto simp add: same_fuels_def split: if_splits
        intro!: count_true_mono [where P = "\<lambda>r. True"])
  show "currently_existing_tech tol cap s = Inr s' \<Longrightarrow>
     asset s' = asset s \<and> replacement s' = replacement s \<and>
     (\<forall>a r. val s' a r \<longrightarrow> val s a r) \<and> count_true s' \<le> count_true s"
    by (auto simp add: currently_existing_tech_def split: if_splits
        intro!: count_true_mono [where P = "\<lambda>r. True"])
  show "currently_referenced_tech cap s = s' \<Longrightarrow>
     asset s' = asset s \<and> replacement s' = replacement s \<and>
     (\<forall>a r. val s' a r \<longrightarrow> val s a r) \<and> count_true s' \<le> count_true s"
    by (auto simp add: currently_referenced_tech_def
        intro!: count_true_mono [where P = "\<lambda>r. True"])
qed

lemma maturity_pointwise:
  "val3 (maturity th techs cap s) a r t \<Longrightarrow> val s a r"
  by (simp add: maturity_def)

lemma with_asset_technology_pointwise:
  "asset (with_asset_technology s) = asset s \<and>
   replacement (with_asset_technology s) = replacement s \<and>
   (val s a r \<longrightarrow> val (with_asset_technology s) a r) \<and>
   count_true s \<le> count_true (with_asset_technology s)"
  by (auto simp add: with_asset_technology_def count_true_def intro!: filter_length_mono)

lemma compress_values:
  "asset (compress s) = asset s \<and> val (compress s) = val s \<and>
   set (replacement (compress s)) =
     {r \<in> set (replacement s). \<exists>a\<in>set (asset s). val s a r}"
  by (auto simp add: compress_def list_ex_iff)

text \<open>
  Claim C3 (search-space monotonicity). The claim says that no ordinary filter, maturity
  among them, increases the number of True entries. On a search space with the single
  entry (gasboiler, gasboiler), True, and a market in which gasboiler and heatpump both
  have capacity 1 and produce 1 of the end use each, with a maturity threshold of 1/2,
  the threshold times the production, 1, is at most the capacity of either technology:
  the result of \<^verbatim>\<open>maturity\<close> is True for (gasboiler, gasboiler, gasboiler) and for
  (gasboiler, gasboiler, heatpump), two True entries where the input had one.
\<close>

theorem maturity_count_increases:
  "count_true single_space = 1 \<and>
   count_true3 (maturity (1 / 2) example_technologies (example_capacity 1 1) single_space) = 2"
  by (simp add: count_true_def count_true3_def maturity_def single_space_def
      example_technologies_def example_capacity_def enduse_production_def enduses_def)




section \<open>Properties of the pairing of new and retrofit agents\<close>



















end
